theory Spec2Isabelle
  imports Main "HOL-Library.Sublist"
begin

section \<open>Python strings\<close>

text \<open>
  A Python \<open>str\<close> is a sequence of Unicode code points, so it is modelled as a list of
  natural numbers (one per code point), not as a list of bytes. \<open>lit\<close> turns an ASCII
  literal into such a list.
\<close>

type_synonym pystr = "nat list"

definition lit :: "string \<Rightarrow> pystr" where
  "lit s = map of_char s"

text \<open>\<open>str(n)\<close> for a non-negative integer: its decimal digits.\<close>

function str_nat :: "nat \<Rightarrow> pystr" where
  "str_nat n = (if n < 10 then [48 + n] else str_nat (n div 10) @ [48 + n mod 10])"
  by pat_completeness auto
termination
  by (relation "measure id") auto

text \<open>\<open>str(i)\<close> for an integer: a minus sign (code point 45) before the digits of a negative one.\<close>

definition str_int :: "int \<Rightarrow> pystr" where
  "str_int i = (if i < 0 then 45 # str_nat (nat (- i)) else str_nat (nat i))"

text \<open>
  \<open>s.replace(old, new)\<close>: every non-overlapping occurrence of \<open>old\<close>, found from the
  left, is replaced. With an empty \<open>old\<close> Python puts \<open>new\<close> before every character and
  at the end.
\<close>

function str_replace :: "pystr \<Rightarrow> pystr \<Rightarrow> pystr \<Rightarrow> pystr" where
  "str_replace old new [] = (if old = [] then new else [])"
| "str_replace old new (c # cs) =
     (if old = [] then new @ concat (map (\<lambda>d. d # new) (c # cs))
      else if prefix old (c # cs)
        then new @ str_replace old new (drop (length old) (c # cs))
      else c # str_replace old new cs)"
  by pat_completeness auto
termination
  by (relation "measure (\<lambda>(old, new, s). length s)") (auto simp: neq_Nil_conv)

text \<open>\<open>sub in s\<close>: the substring test.\<close>

fun str_contains :: "pystr \<Rightarrow> pystr \<Rightarrow> bool" where
  "str_contains sub [] = (sub = [])"
| "str_contains sub (c # cs) = (prefix sub (c # cs) \<or> str_contains sub cs)"

text \<open>The number of places of \<open>s\<close> at which \<open>sub\<close> occurs.\<close>

fun count_occurrences :: "pystr \<Rightarrow> pystr \<Rightarrow> nat" where
  "count_occurrences sub [] = (if sub = [] then 1 else 0)"
| "count_occurrences sub (c # cs) =
     (if prefix sub (c # cs) then 1 else 0) + count_occurrences sub cs"

section \<open>Text sanitizer (\<open>sanitize_text\<close>)\<close>

text \<open>
  \<open>text.encode(sys.getdefaultencoding())\<close>: the default encoding of Python 3 is UTF-8, and
  encoding a \<open>str\<close> to UTF-8 raises \<open>UnicodeEncodeError\<close> exactly when the string holds a
  surrogate code point (U+D800 to U+DFFF).
\<close>

definition is_surrogate :: "nat \<Rightarrow> bool" where
  "is_surrogate c = (55296 \<le> c \<and> c \<le> 57343)"

definition encode_raises :: "pystr \<Rightarrow> bool" where
  "encode_raises s = list_ex is_surrogate s"

text \<open>
  The message of that \<open>UnicodeEncodeError\<close>. The encoder reports the first run of
  surrogates: one character is printed as \<open>\u\<close> (92, 117) and its four hexadecimal
  digits together with its position, a longer run by its first and last position.
\<close>

definition hex_digit :: "nat \<Rightarrow> nat" where
  "hex_digit d = (if d < 10 then 48 + d else 87 + d)"

definition hex4 :: "nat \<Rightarrow> pystr" where
  "hex4 c =
     [hex_digit (c div 4096 mod 16), hex_digit (c div 256 mod 16),
      hex_digit (c div 16 mod 16), hex_digit (c mod 16)]"

definition utf8_error_message :: "pystr \<Rightarrow> pystr" where
  "utf8_error_message s =
     (let before = takeWhile (\<lambda>c. \<not> is_surrogate c) s;
          bad = takeWhile is_surrogate (dropWhile (\<lambda>c. \<not> is_surrogate c) s);
          start = length before
      in case bad of
           [c] \<Rightarrow>
             [39] @ lit ''utf-8'' @ [39] @ lit '' codec can'' @ [39] @ lit ''t encode character ''
               @ [39, 92, 117] @ hex4 c @ [39] @ lit '' in position '' @ str_nat start
               @ lit '': surrogates not allowed''
         | _ \<Rightarrow>
             [39] @ lit ''utf-8'' @ [39] @ lit '' codec can'' @ [39]
               @ lit ''t encode characters in position '' @ str_nat start @ lit ''-''
               @ str_nat (start + length bad - 1) @ lit '': surrogates not allowed'')"

text \<open>
  The dictionary \<open>replacements\<close>, in insertion order (the order in which the \<open>for\<close> loop
  visits it): each key is a single character, given by its code point.
\<close>

definition replacements :: "(nat \<times> pystr) list" where
  "replacements =
     [(8594, lit ''->''),
      (8592, lit ''<-''),
      (8593, lit ''^''),
      (8595, lit ''v''),
      (8226, lit ''*''),
      (8211, lit ''-''),
      (8212, lit ''--''),
      (8216, [39]),
      (8217, [39]),
      (8220, [34]),
      (8221, [34]),
      (8230, lit ''...''),
      (160, lit '' '')]"

text \<open>The loop \<open>for char, replacement in replacements.items(): text = text.replace(...)\<close>.\<close>

definition apply_replacements :: "pystr \<Rightarrow> pystr" where
  "apply_replacements text =
     fold (\<lambda>(ch, replacement) t. str_replace [ch] replacement t) replacements text"

text \<open>
  \<open>re.sub(r"[^\x00-\x7F]+", " ", text)\<close>: each maximal run of characters above U+007F
  becomes one space.
\<close>

function sub_non_ascii :: "pystr \<Rightarrow> pystr" where
  "sub_non_ascii [] = []"
| "sub_non_ascii (c # cs) =
     (if c \<le> 127 then c # sub_non_ascii cs
      else 32 # sub_non_ascii (dropWhile (\<lambda>d. 127 < d) cs))"
  by pat_completeness auto
termination
  by (relation "measure length") (auto simp: length_dropWhile_le less_Suc_eq_le)

text \<open>
  The argument of \<open>sanitize_text\<close> is \<open>None\<close>, a string, or any other object; \<open>str_of\<close> is
  Python's \<open>str()\<close> on the objects that are not strings.
\<close>

datatype 'a pyarg = PyNone | PyStr pystr | PyOther 'a

definition sanitize_text :: "('a \<Rightarrow> pystr) \<Rightarrow> 'a pyarg \<Rightarrow> pystr" where
  "sanitize_text str_of arg =
     (case arg of
        PyNone \<Rightarrow> []
      | _ \<Rightarrow>
          (let text = (case arg of PyStr s \<Rightarrow> s | PyOther v \<Rightarrow> str_of v | PyNone \<Rightarrow> [])
           in if encode_raises text
              then sub_non_ascii (apply_replacements text)
              else text))"

section \<open>Markdown link and image stripper (\<open>remove_links_from_markdown\<close>)\<close>

subsection \<open>Regular-expression substitution\<close>

text \<open>
  \<open>re.sub(pattern, repl, s)\<close> scans \<open>s\<close> from the left. \<open>m\<close> is the pattern tried at the
  start of the text that is left: it gives the text the replacement is built from and the
  text after the match. Where the pattern matches, the replacement is emitted and the scan
  goes on after the match; elsewhere the character is copied. A match that consumes
  nothing makes Python emit the replacement and move one character on; none of the
  patterns of this program matches the empty string.
\<close>

function re_sub :: "(pystr \<Rightarrow> (pystr \<times> pystr) option) \<Rightarrow> (pystr \<Rightarrow> pystr) \<Rightarrow> pystr \<Rightarrow> pystr" where
  "re_sub m repl [] = []"
| "re_sub m repl (c # cs) =
     (case m (c # cs) of
        None \<Rightarrow> c # re_sub m repl cs
      | Some (g, rest) \<Rightarrow>
          (if length rest < length (c # cs) then repl g @ re_sub m repl rest
           else repl g @ c # re_sub m repl cs))"
  by pat_completeness auto
termination
  by (relation "measure (\<lambda>(m, repl, s). length s)") auto

subsection \<open>Fenced code blocks\<close>

text \<open>The fence: three backticks (code point 96).\<close>

definition fence :: pystr where
  "fence = [96, 96, 96]"

text \<open>
  The first fence in \<open>s\<close>: the text before it and the text after it. This is where the
  lazy \<open>[\s\S]*?\<close> of the pattern stops.
\<close>

fun find_fence :: "pystr \<Rightarrow> (pystr \<times> pystr) option" where
  "find_fence [] = None"
| "find_fence (c # cs) =
     (if prefix fence (c # cs) then Some ([], drop 3 (c # cs))
      else (case find_fence cs of
              None \<Rightarrow> None
            | Some (body, rest) \<Rightarrow> Some (c # body, rest)))"

text \<open>
  The pattern \<open>```[\s\S]*?```\<close> at the start of \<open>s\<close>: an opening fence, the shortest text
  up to the next fence, and that fence. The result is the whole match (\<open>match.group(0)\<close>)
  and the text after it.
\<close>

definition match_code_block :: "pystr \<Rightarrow> (pystr \<times> pystr) option" where
  "match_code_block s =
     (if prefix fence s
      then (case find_fence (drop 3 s) of
              None \<Rightarrow> None
            | Some (body, rest) \<Rightarrow> Some (fence @ body @ fence, rest))
      else None)"

text \<open>The placeholder \<open>f"__CODE_BLOCK_{i}__"\<close>.\<close>

definition placeholder :: "nat \<Rightarrow> pystr" where
  "placeholder i = lit ''__CODE_BLOCK_'' @ str_nat i @ lit ''__''"

text \<open>
  \<open>re.sub(r'```[\s\S]*?```', save_code_block, markdown_text)\<close>. The callback
  \<open>save_code_block\<close> appends the match to the list \<open>code_blocks\<close> and returns the
  placeholder numbered \<open>len(code_blocks) - 1\<close>; the list is threaded through the scan and
  returned with the substituted text.
\<close>

lemma find_fence_length:
  "find_fence s = Some (body, rest) \<Longrightarrow> length rest < length s"
  by (induction s arbitrary: body) (auto split: if_splits option.splits)

lemma match_code_block_length:
  "match_code_block s = Some (code, rest) \<Longrightarrow> length rest < length s"
  by (auto simp: match_code_block_def split: if_splits option.splits
      dest!: find_fence_length)

function sub_code_blocks :: "pystr list \<Rightarrow> pystr \<Rightarrow> pystr \<times> pystr list" where
  "sub_code_blocks code_blocks [] = ([], code_blocks)"
| "sub_code_blocks code_blocks (c # cs) =
     (case match_code_block (c # cs) of
        None \<Rightarrow>
          (case sub_code_blocks code_blocks cs of
             (out, final) \<Rightarrow> (c # out, final))
      | Some (code, rest) \<Rightarrow>
          (case sub_code_blocks (code_blocks @ [code]) rest of
             (out, final) \<Rightarrow>
               (placeholder (length (code_blocks @ [code]) - 1) @ out, final)))"
  by pat_completeness auto
termination
  by (relation "measure (\<lambda>(code_blocks, s). length s)")
    (auto dest: match_code_block_length)

subsection \<open>Links, images, blank lines and spaces\<close>

text \<open>
  The pattern \<open>\[([^\]]+)\]\([^)]+\)\<close> at the start of \<open>s\<close>: \<open>[\<close> (91), one or more
  characters other than \<open>]\<close> (93), then \<open>](\<close> (93, 40), one or more characters other than
  \<open>)\<close> (41), then \<open>)\<close>. Each greedy class can only stop at the first character it
  excludes, so the match is unique. The result is group 1 and the text after the match.
\<close>

definition match_link :: "pystr \<Rightarrow> (pystr \<times> pystr) option" where
  "match_link s =
     (if prefix [91] s
      then (let r = drop 1 s;
                text = takeWhile (\<lambda>d. d \<noteq> 93) r;
                r1 = dropWhile (\<lambda>d. d \<noteq> 93) r
            in if text = [] then None
               else if prefix [93, 40] r1
               then (let r2 = drop 2 r1;
                         url = takeWhile (\<lambda>d. d \<noteq> 41) r2;
                         r3 = dropWhile (\<lambda>d. d \<noteq> 41) r2
                     in if url = [] then None
                        else if r3 = [] then None
                        else Some (text, drop 1 r3))
               else None)
      else None)"

text \<open>
  The pattern \<open>!\[[^\]]*\]\([^)]+\)\<close> at the start of \<open>s\<close>: \<open>![\<close> (33, 91), any number of
  characters other than \<open>]\<close>, then \<open>](\<close>, one or more characters other than \<open>)\<close>, then
  \<open>)\<close>. The result is the alternative text and the text after the match.
\<close>

definition match_image :: "pystr \<Rightarrow> (pystr \<times> pystr) option" where
  "match_image s =
     (if prefix [33, 91] s
      then (let r = drop 2 s;
                alt = takeWhile (\<lambda>d. d \<noteq> 93) r;
                r1 = dropWhile (\<lambda>d. d \<noteq> 93) r
            in if prefix [93, 40] r1
               then (let r2 = drop 2 r1;
                         url = takeWhile (\<lambda>d. d \<noteq> 41) r2;
                         r3 = dropWhile (\<lambda>d. d \<noteq> 41) r2
                     in if url = [] then None
                        else if r3 = [] then None
                        else Some (alt, drop 1 r3))
               else None)
      else None)"

text \<open>
  The class \<open>\s\<close> of a \<open>str\<close> pattern: the characters for which \<open>str.isspace\<close> holds.
\<close>

definition is_space :: "nat \<Rightarrow> bool" where
  "is_space c =
     (c \<in> set [9, 10, 11, 12, 13, 28, 29, 30, 31, 32, 133, 160, 5760,
                8192, 8193, 8194, 8195, 8196, 8197, 8198, 8199, 8200, 8201, 8202,
                8232, 8233, 8239, 8287, 12288])"

text \<open>
  The pattern \<open>\n\s*\n\<close> at the start of \<open>s\<close>: a newline (10), then the greedy \<open>\s*\<close>
  backtracks to the last newline of the whitespace that follows. The result is the
  whitespace matched after the first newline and the text after the match.
\<close>

definition match_blank_lines :: "pystr \<Rightarrow> (pystr \<times> pystr) option" where
  "match_blank_lines s =
     (if prefix [10] s
      then (let r = drop 1 s;
                ws = takeWhile is_space r;
                upto_newline = rev (dropWhile (\<lambda>d. d \<noteq> 10) (rev ws))
            in if upto_newline = [] then None
               else Some (upto_newline, drop (length upto_newline) r))
      else None)"

text \<open>
  The pattern \<open> {2,}\<close> at the start of \<open>s\<close>: a maximal run of at least two spaces (32).
\<close>

definition match_spaces :: "pystr \<Rightarrow> (pystr \<times> pystr) option" where
  "match_spaces s =
     (let run = takeWhile (\<lambda>d. d = 32) s
      in if 2 \<le> length run then Some (run, dropWhile (\<lambda>d. d = 32) s) else None)"

subsection \<open>Putting the code blocks back\<close>

text \<open>
  The loop \<open>for i, code_block in enumerate(code_blocks):
  result = result.replace(f"__CODE_BLOCK_{i}__", code_block)\<close>.
\<close>

definition restore_code_blocks :: "pystr \<Rightarrow> pystr list \<Rightarrow> pystr" where
  "restore_code_blocks result code_blocks =
     fold (\<lambda>(i, code_block) r. str_replace (placeholder i) code_block r)
       (enumerate 0 code_blocks) result"

definition remove_links_from_markdown :: "pystr \<Rightarrow> pystr" where
  "remove_links_from_markdown markdown_text =
     (case sub_code_blocks [] markdown_text of
        (markdown_with_placeholders, code_blocks) \<Rightarrow>
          (let text_without_links = re_sub match_link (\<lambda>g. g) markdown_with_placeholders;
               text_without_images = re_sub match_image (\<lambda>g. []) text_without_links;
               text_without_empty_lines =
                 re_sub match_blank_lines (\<lambda>g. [10, 10]) text_without_images;
               text_without_extra_spaces =
                 re_sub match_spaces (\<lambda>g. [32]) text_without_empty_lines
           in restore_code_blocks text_without_extra_spaces code_blocks))"

section \<open>Values, exceptions and the environment\<close>

text \<open>
  The values that metadata entries and tool arguments hold: \<open>None\<close>, booleans, integers
  and strings.
\<close>

datatype pyval = VNone | VBool bool | VInt int | VStr pystr

text \<open>\<open>str(v)\<close>, which is also how an f-string formats \<open>{v}\<close>.\<close>

fun py_str :: "pyval \<Rightarrow> pystr" where
  "py_str VNone = lit ''None''"
| "py_str (VBool b) = (if b then lit ''True'' else lit ''False'')"
| "py_str (VInt i) = str_int i"
| "py_str (VStr s) = s"

text \<open>The truth value of \<open>v\<close>, as \<open>if v\<close> and \<open>not v\<close> read it.\<close>

fun py_truthy :: "pyval \<Rightarrow> bool" where
  "py_truthy VNone = False"
| "py_truthy (VBool b) = b"
| "py_truthy (VInt i) = (i \<noteq> 0)"
| "py_truthy (VStr s) = (s \<noteq> [])"

text \<open>\<open>d.get(k, dflt)\<close>.\<close>

definition dict_get :: "('k \<rightharpoonup> 'v) \<Rightarrow> 'k \<Rightarrow> 'v \<Rightarrow> 'v" where
  "dict_get d k dflt = (case d k of None \<Rightarrow> dflt | Some v \<Rightarrow> v)"

text \<open>An exception: its class and the message that \<open>str(e)\<close> returns.\<close>

datatype exn =
    AttributeError pystr
  | TypeError pystr
  | ValueError pystr
  | KeyError pystr
  | UnicodeEncodeError pystr
  | OSError pystr
  | EngineError pystr

fun exn_str :: "exn \<Rightarrow> pystr" where
  "exn_str (AttributeError m) = m"
| "exn_str (TypeError m) = m"
| "exn_str (ValueError m) = m"
| "exn_str (KeyError m) = m"
| "exn_str (UnicodeEncodeError m) = m"
| "exn_str (OSError m) = m"
| "exn_str (EngineError m) = m"

text \<open>A name between apostrophes (code point 39), as Python's messages quote it.\<close>

definition quoted :: "pystr \<Rightarrow> pystr" where
  "quoted s = 39 # s @ [39]"

text \<open>
  A page result of the crawl engine. \<open>result_markdown\<close> and \<open>result_text\<close> are what
  \<open>getattr(result, "markdown", None)\<close> and \<open>getattr(result, "text", None)\<close> return;
  \<open>result_metadata\<close> is \<open>None\<close> or a dictionary.
\<close>

record page_result =
  result_url :: pystr
  result_markdown :: "pystr option"
  result_text :: "pystr option"
  result_metadata :: "(pystr \<rightharpoonup> pyval) option"

text \<open>
  Writing to the standard output. Lines 17 to 22 of the program make it a UTF-8 text
  stream, which raises \<open>UnicodeEncodeError\<close> on a line that holds a surrogate. A failure
  of the stream itself (a closed pipe) is not modelled.
\<close>

definition print_raises :: "pystr \<Rightarrow> exn option" where
  "print_raises line =
     (if encode_raises line then Some (UnicodeEncodeError (utf8_error_message line))
      else None)"

text \<open>The calendar fields of a \<open>datetime\<close> that the file name is built from.\<close>

record datetime_fields =
  dt_year :: nat
  dt_month :: nat
  dt_day :: nat
  dt_hour :: nat
  dt_minute :: nat
  dt_second :: nat

text \<open>A number in decimal, filled with zeros on the left up to \<open>width\<close> digits.\<close>

definition zero_padded :: "nat \<Rightarrow> nat \<Rightarrow> pystr" where
  "zero_padded width n = replicate (width - length (str_nat n)) 48 @ str_nat n"

text \<open>
  \<open>.strftime("%Y%m%d_%H%M%S")\<close>: the year, the month and the day, an underscore (95),
  the hour, the minute and the second; the year as four digits, the others as two. (For a
  year before 1000 the width of \<open>%Y\<close> depends on the C library; \<open>datetime.now()\<close> gives
  no such year.)
\<close>

definition strftime :: "datetime_fields \<Rightarrow> pystr" where
  "strftime d =
     zero_padded 4 (dt_year d) @ zero_padded 2 (dt_month d) @ zero_padded 2 (dt_day d)
       @ [95]
       @ zero_padded 2 (dt_hour d) @ zero_padded 2 (dt_minute d) @ zero_padded 2 (dt_second d)"

text \<open>
  What the program takes from outside itself. Times are in microseconds.
  \<^item> \<open>clock n\<close>: the value of the \<open>n\<close>-th call of \<open>datetime.now()\<close>;
  \<^item> \<open>calendar\<close>: the year, month, day, hour, minute and second of a time;
  \<^item> \<open>isoformat\<close>: \<open>.isoformat()\<close>;
  \<^item> \<open>format_2f\<close>: the format \<open>:.2f\<close> of a duration;
  \<^item> \<open>urlparse_netloc\<close>: \<open>urllib.parse.urlparse(url).netloc\<close>, or the exception it raises;
  \<^item> \<open>results_directory\<close>: the result of \<open>get_results_directory()\<close>, which creates the
    folder \<open>crawl_results\<close> beside the program, or the exception of \<open>os.makedirs\<close>;
  \<^item> \<open>arun\<close>: the crawl engine, called with the start URL, \<open>max_depth\<close>,
    \<open>include_external\<close> and \<open>verbose\<close>;
  \<^item> \<open>makedirs_raises\<close>, \<open>open_raises\<close>, \<open>write_raises\<close>, \<open>close_raises\<close>: the
    exception, if any, of creating the parent folder of a path, of opening the path for
    writing, of writing a chunk after the given content, and of closing the file.
\<close>

record env =
  clock :: "nat \<Rightarrow> int"
  calendar :: "int \<Rightarrow> datetime_fields"
  isoformat :: "int \<Rightarrow> pystr"
  format_2f :: "int \<Rightarrow> pystr"
  urlparse_netloc :: "pyval \<Rightarrow> exn + pystr"
  results_directory :: "exn + pystr"
  arun :: "pyval \<Rightarrow> pyval \<Rightarrow> pyval \<Rightarrow> pyval \<Rightarrow> exn + page_result list"
  makedirs_raises :: "pystr \<Rightarrow> exn option"
  open_raises :: "pystr \<Rightarrow> exn option"
  write_raises :: "pystr \<Rightarrow> pystr \<Rightarrow> exn option"
  close_raises :: "pystr \<Rightarrow> exn option"

text \<open>
  The state outside the program that it changes: the files it has written and the number
  of clock readings made so far.
\<close>

record world =
  files :: "pystr \<rightharpoonup> pystr"
  ticks :: nat

text \<open>\<open>datetime.now()\<close>: the next clock reading.\<close>

definition now :: "env \<Rightarrow> world \<Rightarrow> int \<times> world" where
  "now e w = (clock e (ticks w), w\<lparr>ticks := Suc (ticks w)\<rparr>)"

section \<open>File names (\<open>generate_filename_from_url\<close>)\<close>

definition generate_filename_from_url :: "env \<Rightarrow> world \<Rightarrow> pyval \<Rightarrow> (exn + pystr) \<times> world" where
  "generate_filename_from_url e w url =
     (case urlparse_netloc e url of
        Inl ex \<Rightarrow> (Inl ex, w)
      | Inr netloc \<Rightarrow>
          (let hostname = str_replace (lit ''.'') (lit ''_'') netloc
           in case now e w of
                (t, w') \<Rightarrow>
                  (let timestamp = strftime (calendar e t)
                   in (Inr (lit ''crawl_'' @ hostname @ lit ''_'' @ timestamp @ lit ''.md''),
                       w'))))"

text \<open>\<open>os.path.join(a, b)\<close> on a POSIX system (the separator is code point 47).\<close>

definition path_join :: "pystr \<Rightarrow> pystr \<Rightarrow> pystr" where
  "path_join a b =
     (if prefix [47] b then b
      else if a = [] then b
      else if last a = 47 then a @ b
      else a @ [47] @ b)"

text \<open>
  A network location that is a host name and nothing else: without the colon (58) of a
  port or of user information and without the at sign (64) of user information.
\<close>

definition is_bare_host :: "pystr \<Rightarrow> bool" where
  "is_bare_host netloc = (58 \<notin> set netloc \<and> 64 \<notin> set netloc)"

section \<open>Result aggregator (\<open>results_to_markdown\<close>)\<close>

text \<open>
  The dictionary \<open>stats\<close>. The keys \<open>start_time\<close>, \<open>end_time\<close> and \<open>duration_seconds\<close>
  are optional: a key that the dictionary does not hold is \<open>None\<close> here.
  \<open>duration_seconds\<close> is kept as the exact number of microseconds of the
  \<open>timedelta\<close>; \<open>total_seconds()\<close> divides it by \<open>10**6\<close>, which keeps its sign.
\<close>

record crawl_stats =
  successful_pages :: nat
  failed_pages :: nat
  not_found_pages :: nat
  forbidden_pages :: nat
  start_time :: "int option"
  end_time :: "int option"
  duration_seconds :: "int option"

text \<open>The dictionary that the aggregator and the orchestrator return.\<close>

record crawl_result =
  error :: "pystr option"
  file_path :: "pystr option"
  stats :: crawl_stats

text \<open>\<open>a or b\<close> on two optional strings: \<open>a\<close> when it is a non-empty string, else \<open>b\<close>.\<close>

definition py_or :: "pystr option \<Rightarrow> pystr option \<Rightarrow> pystr option" where
  "py_or a b = (case a of None \<Rightarrow> b | Some s \<Rightarrow> if s = [] then b else Some s)"

definition error_indicators :: "pystr list" where
  "error_indicators = [lit ''404'', lit ''403'', lit ''Not Found'', lit ''Forbidden'']"

text \<open>The name of the type of a value, as the \<open>TypeError\<close> of \<open>x in v\<close> prints it.\<close>

fun py_type_name :: "pyval \<Rightarrow> pystr" where
  "py_type_name VNone = lit ''NoneType''"
| "py_type_name (VBool b) = lit ''bool''"
| "py_type_name (VInt i) = lit ''int''"
| "py_type_name (VStr s) = lit ''str''"

text \<open>The f-string template of one page section; it starts and ends with a newline.\<close>

definition md_content :: "pystr \<Rightarrow> pystr \<Rightarrow> pystr \<Rightarrow> pystr \<Rightarrow> pystr \<Rightarrow> pystr" where
  "md_content title url depth timestamp text_for_output =
     [10] @ lit ''# '' @ title @ [10] @
     [10] @
     lit ''## URL'' @ [10] @
     url @ [10] @
     [10] @
     lit ''## Metadata'' @ [10] @
     lit ''- Depth: '' @ depth @ [10] @
     lit ''- Timestamp: '' @ timestamp @ [10] @
     [10] @
     lit ''## Content'' @ [10] @
     text_for_output @ [10] @
     [10] @
     lit ''---'' @ [10]"

text \<open>
  One iteration of the loop \<open>for result in results\<close>. The state is the dictionary
  \<open>stats\<close>, the text written to \<open>md_file\<close> so far and the number of clock readings. The
  result is the exception raised in the iteration, if any, and the state it leaves.
  \<open>md_file\<close> is opened with \<open>encoding="utf-8"\<close>, so writing a string that holds a
  surrogate raises \<open>UnicodeEncodeError\<close>, as does printing the line that reports a
  skipped page, which stands before the counter of that page is incremented.
\<close>

fun page_step ::
  "env \<Rightarrow> crawl_stats \<times> pystr \<times> nat \<Rightarrow> page_result \<Rightarrow> exn option \<times> crawl_stats \<times> pystr \<times> nat" where
  "page_step e (st, written, n) result =
     (case py_or (result_markdown result) (result_text result) of
        None \<Rightarrow>
          (case print_raises
                  (lit ''No content found for '' @ result_url result @ lit '' - Skipped'') of
             Some ex \<Rightarrow> (Some ex, st, written, n)
           | None \<Rightarrow> (None, st\<lparr>failed_pages := failed_pages st + 1\<rparr>, written, n))
      | Some text_for_output \<Rightarrow>
          if text_for_output = []
          then (case print_raises
                       (lit ''No content found for '' @ result_url result @ lit '' - Skipped'') of
                  Some ex \<Rightarrow> (Some ex, st, written, n)
                | None \<Rightarrow>
                    (None, st\<lparr>failed_pages := failed_pages st + 1\<rparr>, written, n))
          else if (str_contains (lit ''404 Not Found'') text_for_output
                   \<or> str_contains (lit ''403 Forbidden'') text_for_output)
                  \<and> str_contains (lit ''nginx'') text_for_output
          then (let error_type =
                      (if str_contains (lit ''404 Not Found'') text_for_output
                       then lit ''404'' else lit ''403'')
                in case print_raises
                          (error_type @ lit '' page detected and skipped: ''
                             @ result_url result) of
                     Some ex \<Rightarrow> (Some ex, st, written, n)
                   | None \<Rightarrow>
                       if error_type = lit ''404''
                       then (None, st\<lparr>not_found_pages := not_found_pages st + 1\<rparr>,
                             written, n)
                       else (None, st\<lparr>forbidden_pages := forbidden_pages st + 1\<rparr>,
                             written, n))
          else (let stripped = remove_links_from_markdown text_for_output
                in case result_metadata result of
                     None \<Rightarrow>
                       (Some (AttributeError
                          (quoted (lit ''NoneType'') @ lit '' object has no attribute ''
                             @ quoted (lit ''get''))),
                        st, written, n)
                   | Some metadata \<Rightarrow>
                       (let depth = dict_get metadata (lit ''depth'') (VStr (lit ''N/A''));
                            timestamp = isoformat e (clock e n);
                            title = dict_get metadata (lit ''title'') (VStr (lit ''Untitled page''))
                        in case title of
                             VStr title_s \<Rightarrow>
                               if list_ex (\<lambda>indicator. str_contains indicator title_s)
                                    error_indicators
                               then (case print_raises
                                             (lit ''Page with error title detected and skipped: ''
                                                @ result_url result) of
                                       Some ex \<Rightarrow> (Some ex, st, written, Suc n)
                                     | None \<Rightarrow>
                                         if str_contains (lit ''404'') title_s
                                            \<or> str_contains (lit ''Not Found'') title_s
                                         then (None,
                                               st\<lparr>not_found_pages :=
                                                    not_found_pages st + 1\<rparr>,
                                               written, Suc n)
                                         else (None,
                                               st\<lparr>forbidden_pages :=
                                                    forbidden_pages st + 1\<rparr>,
                                               written, Suc n))
                               else (let content =
                                           md_content title_s (result_url result) (py_str depth)
                                             timestamp stripped
                                     in if encode_raises content
                                        then (Some (UnicodeEncodeError
                                                (utf8_error_message content)),
                                              st, written, Suc n)
                                        else (case write_raises e written content of
                                                Some ex \<Rightarrow> (Some ex, st, written, Suc n)
                                              | None \<Rightarrow>
                                                  (None,
                                                   st\<lparr>successful_pages :=
                                                            successful_pages st + 1\<rparr>,
                                                   written @ content, Suc n)))
                           | _ \<Rightarrow>
                               (Some (TypeError
                                  (lit ''argument of type '' @ quoted (py_type_name title)
                                     @ lit '' is not iterable'')),
                                st, written, Suc n))))"

text \<open>The loop: it stops at the first iteration that raises.\<close>

fun process_results ::
  "env \<Rightarrow> crawl_stats \<times> pystr \<times> nat \<Rightarrow> page_result list \<Rightarrow> exn option \<times> crawl_stats \<times> pystr \<times> nat" where
  "process_results e s [] = (None, s)"
| "process_results e s (result # results) =
     (case page_step e s result of
        (Some ex, s') \<Rightarrow> (Some ex, s')
      | (None, s') \<Rightarrow> process_results e s' results)"

text \<open>
  The dictionary returned by the \<open>except\<close> branch: it holds \<open>stats\<close> as it is then.
  The branch first prints the exception and the traceback to the standard error stream;
  Python's messages show file names and characters that cannot be encoded in escaped
  form, so these lines are printable and their printing is left out, as is the printing
  of the two summary lines after the loop, which hold numbers only.
\<close>

definition writing_error :: "exn \<Rightarrow> crawl_stats \<Rightarrow> crawl_result" where
  "writing_error ex st =
     \<lparr>error = Some (lit ''Writing error: '' @ exn_str ex), file_path = None, stats = st\<rparr>"

text \<open>
  Opening the file with mode \<open>"w"\<close> empties it; it is closed when the \<open>with\<close> block is
  left, which can raise as well. What was written stays in the file on every path after
  the opening.
\<close>

definition results_to_markdown ::
  "env \<Rightarrow> world \<Rightarrow> page_result list \<Rightarrow> pystr \<Rightarrow> crawl_result \<times> world" where
  "results_to_markdown e w results output_path =
     (case now e w of
        (t0, w0) \<Rightarrow>
          (let stats0 =
                 \<lparr>successful_pages = 0, failed_pages = 0, not_found_pages = 0,
                  forbidden_pages = 0, start_time = Some t0, end_time = None,
                  duration_seconds = None\<rparr>
           in case open_raises e output_path of
                Some ex \<Rightarrow> (writing_error ex stats0, w0)
              | None \<Rightarrow>
                  (case process_results e (stats0, [], ticks w0) results of
                     (raised, stats1, written, n) \<Rightarrow>
                       (let w1 = \<lparr>files = (files w0)(output_path \<mapsto> written), ticks = n\<rparr>
                        in case raised of
                             Some ex \<Rightarrow> (writing_error ex stats1, w1)
                           | None \<Rightarrow>
                               (case close_raises e output_path of
                                  Some ex \<Rightarrow> (writing_error ex stats1, w1)
                                | None \<Rightarrow>
                                    (case now e w1 of
                                       (t1, w2) \<Rightarrow>
                                         (\<lparr>error = None, file_path = Some output_path,
                                           stats = stats1\<lparr>end_time := Some t1,
                                             duration_seconds := Some (t1 - t0)\<rparr>\<rparr>,
                                          w2)))))))"

text \<open>
  The outcome of one page, read off the branches of the loop body: which counter the page
  is added to, or that it is written (with the stripped text), or the exception that its
  metadata raises. It is the outcome of an iteration in which the line reporting a
  skipped page can be printed; the URL plays no part in it.
\<close>

datatype error_kind = NotFound | Forbidden

datatype outcome =
    Accepted pystr
  | SkippedNoContent
  | SkippedErrorPage error_kind
  | Raises exn

definition classify :: "page_result \<Rightarrow> outcome" where
  "classify result =
     (case py_or (result_markdown result) (result_text result) of
        None \<Rightarrow> SkippedNoContent
      | Some text_for_output \<Rightarrow>
          if text_for_output = [] then SkippedNoContent
          else if str_contains (lit ''nginx'') text_for_output
                  \<and> str_contains (lit ''404 Not Found'') text_for_output
          then SkippedErrorPage NotFound
          else if str_contains (lit ''nginx'') text_for_output
                  \<and> str_contains (lit ''403 Forbidden'') text_for_output
          then SkippedErrorPage Forbidden
          else (case result_metadata result of
                  None \<Rightarrow>
                    Raises (AttributeError
                      (quoted (lit ''NoneType'') @ lit '' object has no attribute ''
                         @ quoted (lit ''get'')))
                | Some metadata \<Rightarrow>
                    (case dict_get metadata (lit ''title'') (VStr (lit ''Untitled page'')) of
                       VStr title_s \<Rightarrow>
                         if str_contains (lit ''404'') title_s
                            \<or> str_contains (lit ''Not Found'') title_s
                         then SkippedErrorPage NotFound
                         else if str_contains (lit ''403'') title_s
                                 \<or> str_contains (lit ''Forbidden'') title_s
                         then SkippedErrorPage Forbidden
                         else Accepted (remove_links_from_markdown text_for_output)
                     | title \<Rightarrow>
                         Raises (TypeError
                           (lit ''argument of type '' @ quoted (py_type_name title)
                              @ lit '' is not iterable'')))))"

section \<open>Crawl orchestrator (\<open>crawl_and_output_to_markdown\<close>)\<close>

text \<open>
  The first statement of the orchestrator: an \<open>output_file\<close> that is \<open>None\<close> or empty is
  replaced by a generated name in the results directory. It stands outside the \<open>try\<close>
  block, so an exception raised here leaves the orchestrator.
\<close>

definition resolve_output_file :: "env \<Rightarrow> world \<Rightarrow> pyval \<Rightarrow> pyval \<Rightarrow> (exn + pyval) \<times> world" where
  "resolve_output_file e w start_url output_file =
     (if \<not> py_truthy output_file
      then (case results_directory e of
              Inl ex \<Rightarrow> (Inl ex, w)
            | Inr dir \<Rightarrow>
                (case generate_filename_from_url e w start_url of
                   (Inl ex, w') \<Rightarrow> (Inl ex, w')
                 | (Inr name, w') \<Rightarrow> (Inr (VStr (path_join dir name)), w')))
      else (Inr output_file, w))"

text \<open>The dictionary returned by the \<open>except\<close> branch of the orchestrator.\<close>

definition crawling_error :: "exn \<Rightarrow> crawl_result" where
  "crawling_error ex =
     \<lparr>error = Some (lit ''Crawling error: '' @ exn_str ex), file_path = None,
      stats = \<lparr>successful_pages = 0, failed_pages = 0, not_found_pages = 0,
                forbidden_pages = 0, start_time = None, end_time = None,
                duration_seconds = Some 0\<rparr>\<rparr>"

text \<open>
  The engine is called once; then the parent folder of the output file is created and
  the aggregator is called. \<open>os.path.abspath\<close> raises \<open>TypeError\<close> on an \<open>output_file\<close>
  that is not a string. Building the run configuration is taken not to raise. The line
  printed after the crawl holds a number only, and the lines that the \<open>except\<close> branch
  prints to the standard error stream are left out as in the aggregator.
\<close>

definition crawl_and_output_to_markdown ::
  "env \<Rightarrow> world \<Rightarrow> pyval \<Rightarrow> pyval \<Rightarrow> pyval \<Rightarrow> pyval \<Rightarrow> pyval \<Rightarrow> (exn + crawl_result) \<times> world" where
  "crawl_and_output_to_markdown e w start_url max_depth include_external verbose output_file =
     (case resolve_output_file e w start_url output_file of
        (Inl ex, w1) \<Rightarrow> (Inl ex, w1)
      | (Inr output_file', w1) \<Rightarrow>
          (case arun e start_url max_depth include_external verbose of
             Inl ex \<Rightarrow> (Inr (crawling_error ex), w1)
           | Inr results \<Rightarrow>
               (case output_file' of
                  VStr path \<Rightarrow>
                    (case makedirs_raises e path of
                       Some ex \<Rightarrow> (Inr (crawling_error ex), w1)
                     | None \<Rightarrow>
                         (case results_to_markdown e w1 results path of
                            (result, w2) \<Rightarrow> (Inr result, w2)))
                | v \<Rightarrow>
                    (Inr (crawling_error (TypeError
                       (lit ''expected str, bytes or os.PathLike object, not ''
                          @ py_type_name v))), w1))))"

section \<open>Tool server (\<open>crawl_tool\<close>)\<close>

datatype content = TextContent pystr

text \<open>The f-string \<open>summary\<close> of a successful crawl.\<close>

definition summary :: "env \<Rightarrow> pyval \<Rightarrow> pystr option \<Rightarrow> int \<Rightarrow> crawl_stats \<Rightarrow> pystr" where
  "summary e url path duration st =
     (let file_path_s = (case path of None \<Rightarrow> lit ''None'' | Some p \<Rightarrow> p)
      in [10] @ lit ''## Crawl completed successfully'' @ [10] @
         lit ''- URL: '' @ py_str url @ [10] @
         lit ''- Result file: '' @ file_path_s @ [10] @
         lit ''- Duration: '' @ format_2f e duration @ lit '' seconds'' @ [10] @
         lit ''- Pages processed: '' @ str_nat (successful_pages st) @ lit '' successful, ''
           @ str_nat (failed_pages st) @ lit '' failed, '' @ [10] @
         lit ''  '' @ str_nat (not_found_pages st) @ lit '' not found (404), ''
           @ str_nat (forbidden_pages st) @ lit '' access forbidden (403)'' @ [10] @
         [10] @
         lit ''You can view the results in the file: '' @ file_path_s @ [10] @
         lit ''(Results are now stored in the '' @ quoted (lit ''crawl_results'')
           @ lit '' folder of your project)'' @ [10] @
         lit ''            '')"

text \<open>
  The reply of the \<open>except\<close> branch of the handler (its lines on the standard error
  stream are left out as in the aggregator).
\<close>

definition error_reply :: "exn \<Rightarrow> content list" where
  "error_reply ex =
     [TextContent (lit ''Error: '' @ sanitize_text py_str (PyStr (exn_str ex)))]"

text \<open>
  The handler of a tool call. \<open>Inl\<close> is an exception that leaves the handler (the two
  \<open>raise ValueError\<close> statements stand before the \<open>try\<close> block); \<open>Inr\<close> is the list of
  content items it returns.
\<close>

definition crawl_tool ::
  "env \<Rightarrow> world \<Rightarrow> pystr \<Rightarrow> (pystr \<rightharpoonup> pyval) \<Rightarrow> (exn + content list) \<times> world" where
  "crawl_tool e w name arguments =
     (if name \<noteq> lit ''crawl''
      then (Inl (ValueError (lit ''Unknown tool: '' @ name)), w)
      else (case arguments (lit ''url'') of
              None \<Rightarrow>
                (Inl (ValueError (lit ''Missing required argument '' @ quoted (lit ''url''))), w)
            | Some url \<Rightarrow>
                (let max_depth = dict_get arguments (lit ''max_depth'') (VInt 2);
                     include_external = dict_get arguments (lit ''include_external'') (VBool False);
                     verbose = dict_get arguments (lit ''verbose'') (VBool True);
                     output_file = dict_get arguments (lit ''output_file'') VNone
                 in case crawl_and_output_to_markdown e w url max_depth include_external
                           verbose output_file of
                      (Inl ex, w1) \<Rightarrow> (Inr (error_reply ex), w1)
                    | (Inr result, w1) \<Rightarrow>
                        (case error result of
                           Some err \<Rightarrow>
                             if err \<noteq> []
                             then (Inr [TextContent (lit ''Error: '' @ err)], w1)
                             else (case duration_seconds (stats result) of
                                     None \<Rightarrow>
                                       (Inr (error_reply
                                          (KeyError (quoted (lit ''duration_seconds'')))), w1)
                                   | Some d \<Rightarrow>
                                       (Inr [TextContent
                                          (summary e url (file_path result) d (stats result))],
                                        w1))
                         | None \<Rightarrow>
                             (case duration_seconds (stats result) of
                                None \<Rightarrow>
                                  (Inr (error_reply
                                     (KeyError (quoted (lit ''duration_seconds'')))), w1)
                              | Some d \<Rightarrow>
                                  (Inr [TextContent
                                     (summary e url (file_path result) d (stats result))],
                                   w1))))))"

section \<open>Notions used to state the properties of the aggregator\<close>

text \<open>The number of pages counted in the four counters together.\<close>

definition total_pages :: "crawl_stats \<Rightarrow> nat" where
  "total_pages st =
     successful_pages st + failed_pages st + not_found_pages st + forbidden_pages st"

definition is_accepted :: "page_result \<Rightarrow> bool" where
  "is_accepted r = (case classify r of Accepted t \<Rightarrow> True | _ \<Rightarrow> False)"

text \<open>
  The section that the loop writes for a page at the \<open>n\<close>-th clock reading: the template
  filled in for an accepted page, nothing for any other page.
\<close>

definition page_section :: "env \<Rightarrow> nat \<Rightarrow> page_result \<Rightarrow> pystr" where
  "page_section e n r =
     (case classify r of
        Accepted stripped \<Rightarrow>
          (case result_metadata r of
             None \<Rightarrow> []
           | Some metadata \<Rightarrow>
               md_content
                 (py_str (dict_get metadata (lit ''title'') (VStr (lit ''Untitled page''))))
                 (result_url r)
                 (py_str (dict_get metadata (lit ''depth'') (VStr (lit ''N/A''))))
                 (isoformat e (clock e n)) stripped)
      | _ \<Rightarrow> [])"

text \<open>The dictionary \<open>stats\<close> as the aggregator creates it.\<close>

definition initial_stats :: "env \<Rightarrow> world \<Rightarrow> crawl_stats" where
  "initial_stats e w =
     \<lparr>successful_pages = 0, failed_pages = 0, not_found_pages = 0, forbidden_pages = 0,
      start_time = Some (clock e (ticks w)), end_time = None, duration_seconds = None\<rparr>"

text \<open>The heading of the content block in the template.\<close>

definition heading :: pystr where
  "heading = lit ''## Content''"

text \<open>
  The occurrences of the heading text inside the fields of an accepted page that the
  template prints: its title, its URL, its depth and its stripped text.
\<close>

definition field_occurrences :: "page_result \<Rightarrow> nat" where
  "field_occurrences r =
     (case classify r of
        Accepted stripped \<Rightarrow>
          (case result_metadata r of
             None \<Rightarrow> 0
           | Some metadata \<Rightarrow>
               count_occurrences heading
                 (py_str (dict_get metadata (lit ''title'') (VStr (lit ''Untitled page''))))
               + count_occurrences heading (result_url r)
               + count_occurrences heading
                   (py_str (dict_get metadata (lit ''depth'') (VStr (lit ''N/A''))))
               + count_occurrences heading stripped)
      | _ \<Rightarrow> 0)"

section \<open>An example environment\<close>

text \<open>
  A concrete environment for evaluating the program: the clock advances by one second at
  each reading, every time is read as midnight of 1 January 2025 and printed as the
  same fixed text, the start URL is \<open>http://my-site.example.com/guide\<close> (whose network
  location is \<open>my-site.example.com\<close>), the engine finds no page and nothing of the file
  system fails.
\<close>

definition example_clock :: "nat \<Rightarrow> int" where
  "example_clock n = 1000000 * int n"

definition example_isoformat :: "int \<Rightarrow> pystr" where
  "example_isoformat t = lit ''2025-01-01T00:00:00''"

definition example_calendar :: "int \<Rightarrow> datetime_fields" where
  "example_calendar t =
     \<lparr>dt_year = 2025, dt_month = 1, dt_day = 1, dt_hour = 0, dt_minute = 0, dt_second = 0\<rparr>"

definition example_format_2f :: "int \<Rightarrow> pystr" where
  "example_format_2f d = str_int (d div 1000000) @ lit ''.00''"

definition example_urlparse_netloc :: "pyval \<Rightarrow> exn + pystr" where
  "example_urlparse_netloc url = Inr (lit ''my-site.example.com'')"

definition example_arun :: "pyval \<Rightarrow> pyval \<Rightarrow> pyval \<Rightarrow> pyval \<Rightarrow> exn + page_result list" where
  "example_arun url max_depth include_external verbose = Inr []"

definition never_raises1 :: "pystr \<Rightarrow> exn option" where
  "never_raises1 p = None"

definition never_raises2 :: "pystr \<Rightarrow> pystr \<Rightarrow> exn option" where
  "never_raises2 written chunk = None"

definition example_env :: env where
  "example_env =
     \<lparr>clock = example_clock, calendar = example_calendar, isoformat = example_isoformat,
      format_2f = example_format_2f, urlparse_netloc = example_urlparse_netloc,
      results_directory = Inr (lit ''/app/crawl_results''), arun = example_arun,
      makedirs_raises = never_raises1, open_raises = never_raises1,
      write_raises = never_raises2, close_raises = never_raises1\<rparr>"

text \<open>An environment in which the output file cannot be opened.\<close>

definition open_fails :: "pystr \<Rightarrow> exn option" where
  "open_fails p = Some (OSError (lit ''[Errno 21] Is a directory: '' @ quoted p))"

definition failing_env :: env where
  "failing_env = example_env\<lparr>open_raises := open_fails\<rparr>"

definition world0 :: world where
  "world0 = \<lparr>files = Map.empty, ticks = 0\<rparr>"

definition stats0 :: crawl_stats where
  "stats0 =
     \<lparr>successful_pages = 0, failed_pages = 0, not_found_pages = 0, forbidden_pages = 0,
      start_time = Some 0, end_time = None, duration_seconds = None\<rparr>"


definition page_nginx_404 :: page_result where
  "page_nginx_404 =
     \<lparr>result_url = lit ''http://localhost:8000/gone'',
      result_markdown = Some (lit ''404 Not Found nginx''),
      result_text = None,
      result_metadata = Some [lit ''title'' \<mapsto> VStr (lit ''Welcome'')]\<rparr>"

definition page_heading :: page_result where
  "page_heading =
     \<lparr>result_url = lit ''http://localhost:8000/a'',
      result_markdown = Some (lit ''## Content''),
      result_text = None,
      result_metadata = Some [lit ''title'' \<mapsto> VStr (lit ''A''), lit ''depth'' \<mapsto> VInt 1]\<rparr>"

definition page_plain :: page_result where
  "page_plain =
     \<lparr>result_url = lit ''http://localhost:8000/b'',
      result_markdown = Some (lit ''hello''),
      result_text = None,
      result_metadata = Some [lit ''title'' \<mapsto> VStr (lit ''B''), lit ''depth'' \<mapsto> VInt 0]\<rparr>"

definition example_pages :: "page_result list" where
  "example_pages = [page_nginx_404, page_heading, page_plain]"

section \<open>Properties of the sanitizer\<close>

lemma sub_non_ascii_ascii: "list_all (\<lambda>c. c \<le> 127) (sub_non_ascii s)"
  by (induction s rule: sub_non_ascii.induct) simp_all

lemma ascii_not_encode_raises:
  assumes "list_all (\<lambda>c. c \<le> 127) s"
  shows "\<not> encode_raises s"
  using assms by (induction s) (simp_all add: encode_raises_def is_surrogate_def)

lemma sanitize_text_not_encode_raises: "\<not> encode_raises (sanitize_text str_of arg)"
  by (cases arg)
    (simp_all add: sanitize_text_def Let_def encode_raises_def
      ascii_not_encode_raises [unfolded encode_raises_def] sub_non_ascii_ascii)

text \<open>
  Claim C8. \<open>sanitize_text\<close> is idempotent: for every argument (\<open>None\<close>, a string, or an
  object that is stringified first), sanitizing the result again gives the same string.
\<close>

theorem sanitize_text_idempotent:
  "sanitize_text str_of' (PyStr (sanitize_text str_of arg)) = sanitize_text str_of arg"
  using sanitize_text_not_encode_raises [of str_of arg]
  by (simp add: sanitize_text_def [of str_of' "PyStr _"])

text \<open>
  Claim C10. A string that UTF-8 can encode (one without surrogate code points) is
  returned unchanged, whatever characters of the substitution table it holds; the
  substitutions and the removal of non-ASCII characters run only on a string whose
  encoding raises.
\<close>

theorem sanitize_text_encodable_unchanged:
  "(\<not> encode_raises s \<longrightarrow> sanitize_text str_of (PyStr s) = s) \<and>
   (encode_raises s \<longrightarrow>
      sanitize_text str_of (PyStr s) = sub_non_ascii (apply_replacements s))"
  by (simp add: sanitize_text_def)

theorem sanitize_text_encodable_unchanged_witness:
  "\<not> encode_raises [8594, 8212, 8220, 8230, 160] \<and>
   sanitize_text str_int (PyStr [8594, 8212, 8220, 8230, 160]) = [8594, 8212, 8220, 8230, 160] \<and>
   encode_raises [55296, 8594, 233, 8364, 97] \<and>
   sanitize_text str_int (PyStr [55296, 8594, 233, 8364, 97]) = lit '' -> a''"
proof -
  have a: "\<not> encode_raises [8594, 8212, 8220, 8230, 160]"
    by (simp add: encode_raises_def is_surrogate_def)
  have b: "encode_raises [55296, 8594, 233, 8364, 97]"
    by (simp add: encode_raises_def is_surrogate_def)
  have c: "sub_non_ascii (apply_replacements [55296, 8594, 233, 8364, 97]) = lit '' -> a''"
    by (simp add: apply_replacements_def replacements_def lit_def)
  from sanitize_text_encodable_unchanged [of "[8594, 8212, 8220, 8230, 160]" str_int]
    sanitize_text_encodable_unchanged [of "[55296, 8594, 233, 8364, 97]" str_int]
    a b c
  show ?thesis by simp
qed

section \<open>Properties of the stripper\<close>

text \<open>Each pattern of the stripper consumes at least one character where it matches.\<close>

lemma length_drop_dropWhile_le: "length (drop k (dropWhile P xs)) \<le> length xs"
proof -
  have "length (drop k (dropWhile P xs)) \<le> length (dropWhile P xs)"
    by simp
  also have "\<dots> \<le> length xs"
    by (rule length_dropWhile_le)
  finally show ?thesis .
qed

lemma length_tail_chain:
  assumes "s \<noteq> []" and "0 < i"
  shows "length (drop j (dropWhile P (drop k (dropWhile Q (drop i s))))) < length s"
proof -
  have "length (drop j (dropWhile P (drop k (dropWhile Q (drop i s)))))
          \<le> length (drop k (dropWhile Q (drop i s)))"
    by (rule length_drop_dropWhile_le)
  also have "\<dots> \<le> length (drop i s)"
    by (rule length_drop_dropWhile_le)
  also from assms have "\<dots> < length s"
    by (cases s) simp_all
  finally show ?thesis .
qed

lemma match_link_consumes:
  assumes "match_link s = Some (g, rest)"
  shows "length rest < length s"
proof -
  from assms have "s \<noteq> []"
    by (auto simp: match_link_def)
  moreover from assms have
    "rest = drop 1 (dropWhile (\<lambda>d. d \<noteq> 41)
              (drop 2 (dropWhile (\<lambda>d. d \<noteq> 93) (drop (Suc 0) s))))"
    by (simp add: match_link_def Let_def split: if_splits)
  ultimately show ?thesis
    using length_tail_chain [of s _ 1 "\<lambda>d. d \<noteq> 41" 2 "\<lambda>d. d \<noteq> 93"] by simp
qed

lemma match_image_consumes:
  assumes "match_image s = Some (g, rest)"
  shows "length rest < length s"
proof -
  from assms have "s \<noteq> []"
    by (auto simp: match_image_def)
  moreover from assms have
    "rest = drop 1 (dropWhile (\<lambda>d. d \<noteq> 41)
              (drop 2 (dropWhile (\<lambda>d. d \<noteq> 93) (drop 2 s))))"
    by (auto simp: match_image_def Let_def split: if_splits)
  ultimately show ?thesis
    using length_tail_chain [of s _ 1 "\<lambda>d. d \<noteq> 41" 2 "\<lambda>d. d \<noteq> 93"] by simp
qed

lemma match_blank_lines_consumes:
  assumes "match_blank_lines s = Some (g, rest)"
  shows "length rest < length s"
proof -
  from assms have "s \<noteq> []"
    by (auto simp: match_blank_lines_def)
  moreover from assms have "rest = drop (length g) (drop 1 s)"
    by (auto simp: match_blank_lines_def Let_def split: if_splits)
  ultimately show ?thesis
    by (cases s) (simp_all add: less_Suc_eq_le)
qed

lemma match_spaces_consumes:
  assumes "match_spaces s = Some (g, rest)"
  shows "length rest < length s"
proof -
  from assms have g: "g = takeWhile (\<lambda>d. d = 32) s" and r: "rest = dropWhile (\<lambda>d. d = 32) s"
    and l: "2 \<le> length g"
    by (auto simp: match_spaces_def Let_def split: if_splits)
  have "length (takeWhile (\<lambda>d. d = 32) s) + length (dropWhile (\<lambda>d. d = 32) s) = length s"
    by (metis length_append takeWhile_dropWhile_id)
  with g r l show ?thesis by simp
qed

text \<open>
  So the branch of \<open>re_sub\<close> for a match that consumes nothing is never taken with these
  patterns: after a match the scan goes on with the text behind it.
\<close>

lemma re_sub_consuming:
  assumes "\<And>s g rest. m s = Some (g, rest) \<Longrightarrow> length rest < length s"
  shows "re_sub m repl (c # cs) =
           (case m (c # cs) of
              None \<Rightarrow> c # re_sub m repl cs
            | Some (g, rest) \<Rightarrow> repl g @ re_sub m repl rest)"
proof (cases "m (c # cs)")
  case None
  then show ?thesis by simp
next
  case (Some p)
  obtain g rest where p: "p = (g, rest)"
    by (cases p)
  with Some have q: "m (c # cs) = Some (g, rest)"
    by simp
  then have "length rest < length (c # cs)"
    by (rule assms)
  with q show ?thesis by simp
qed

lemmas strip_eval = remove_links_from_markdown_def lit_def match_link_def match_image_def
  match_blank_lines_def match_spaces_def restore_code_blocks_def placeholder_def
  match_code_block_def fence_def is_space_def Let_def enumerate_eq_zip

text \<open>
  Claim C1. The claim says that an image \<open>![alt](url)\<close> is removed entirely, so that
  \<open>![alt](http://x.com/img.png)\<close> gives the empty string. The source runs the link
  substitution before the image substitution: the link pattern matches
  \<open>[alt](http://x.com/img.png)\<close> inside the image and leaves \<open>!alt\<close>, which the image
  pattern no longer matches. The result is \<open>!alt\<close>, not the empty string.
\<close>

theorem remove_links_image_alt_kept:
  "remove_links_from_markdown (lit ''![alt](http://x.com/img.png)'') = lit ''!alt''"
  by (simp add: strip_eval)

text \<open>
  Claim C2. The claim says that the content of every fenced code block reaches the output
  unchanged, whatever text stands inside or outside the blocks. Two inputs show that the
  source does not do this. In the first, the first block holds the text of the second
  block's placeholder; putting the second block back replaces that text too, so the first
  block comes out changed. In the second, a block stands where a link has its target: its
  placeholder is removed with the link, and the block is gone from the output.
\<close>

theorem remove_links_code_block_altered:
  "remove_links_from_markdown (lit ''```__CODE_BLOCK_1__``` ```b```'')
     = lit ''``````b`````` ```b```'' \<and>
   remove_links_from_markdown (lit ''[t](```x```)'') = lit ''t''"
  by (simp add: strip_eval)

section \<open>Properties of the aggregator\<close>

text \<open>
  What one iteration does, by the outcome of its page: a page that does not raise is added
  to exactly one counter, and an iteration that raises leaves the counters and the file
  as they were.
\<close>

lemma lit_403_404: "lit ''403'' \<noteq> lit ''404''"
  by (simp add: lit_def)

lemma page_step_classify:
  assumes "page_step e (st, written, n) r = (None, st', written', n')"
  shows "(case classify r of
            Accepted t \<Rightarrow> st' = st\<lparr>successful_pages := successful_pages st + 1\<rparr>
          | SkippedNoContent \<Rightarrow> st' = st\<lparr>failed_pages := failed_pages st + 1\<rparr>
          | SkippedErrorPage NotFound \<Rightarrow>
              st' = st\<lparr>not_found_pages := not_found_pages st + 1\<rparr>
          | SkippedErrorPage Forbidden \<Rightarrow>
              st' = st\<lparr>forbidden_pages := forbidden_pages st + 1\<rparr>
          | Raises ex \<Rightarrow> False)"
  using assms
  by (auto simp: classify_def Let_def error_indicators_def lit_403_404
      split: option.splits if_splits pyval.splits)

lemma page_step_raises:
  assumes "page_step e (st, written, n) r = (Some ex, st', written', n')"
  shows "st' = st \<and> written' = written"
  using assms
  by (auto simp: Let_def split: option.splits if_splits pyval.splits)


lemma page_step_effect:
  assumes "page_step e (st, written, n) r = (None, st', written', n')"
  shows "total_pages st' = Suc (total_pages st)"
    and "successful_pages st' = successful_pages st + (if is_accepted r then 1 else 0)"
    and "written' = written @ page_section e n r"
proof -
  from page_step_classify [OF assms]
  show "total_pages st' = Suc (total_pages st)"
    by (auto simp: total_pages_def split: outcome.splits error_kind.splits)
  from page_step_classify [OF assms]
  show "successful_pages st' = successful_pages st + (if is_accepted r then 1 else 0)"
    by (auto simp: is_accepted_def split: outcome.splits error_kind.splits)
  from assms show "written' = written @ page_section e n r"
    by (auto simp: page_section_def classify_def Let_def error_indicators_def lit_403_404
        split: option.splits if_splits pyval.splits)
qed

lemma process_results_effect:
  assumes "process_results e (st, written, n) rs = (None, st', written', n')"
  shows "total_pages st' = total_pages st + length rs
         \<and> successful_pages st' = successful_pages st + length (filter is_accepted rs)"
  using assms
proof (induction rs arbitrary: st written n)
  case Nil
  then show ?case by simp
next
  case (Cons r rs)
  obtain raised st1 written1 n1
    where step: "page_step e (st, written, n) r = (raised, st1, written1, n1)"
    by (metis prod_cases4)
  with Cons.prems have none: "raised = None"
    and rest: "process_results e (st1, written1, n1) rs = (None, st', written', n')"
    by (auto split: option.splits)
  from step none have s: "page_step e (st, written, n) r = (None, st1, written1, n1)"
    by simp
  from Cons.IH [OF rest] page_step_effect(1,2) [OF s]
  show ?case by simp
qed

lemma prefix_stops_at_newline:
  assumes "10 \<notin> set sub"
  shows "prefix sub (xs @ 10 # ys) = prefix sub xs"
proof
  assume "prefix sub (xs @ 10 # ys)"
  then consider "prefix sub xs" | us where "sub = xs @ us" "prefix us (10 # ys)"
    by (auto simp: prefix_append)
  then show "prefix sub xs"
  proof cases
    case 1
    then show ?thesis .
  next
    case 2
    with assms show ?thesis by (cases us) auto
  qed
next
  assume "prefix sub xs"
  then show "prefix sub (xs @ 10 # ys)" by (simp add: prefix_append)
qed

lemma count_occurrences_newline:
  assumes "10 \<notin> set sub" and "sub \<noteq> []"
  shows "count_occurrences sub (a @ 10 # b) = count_occurrences sub a + count_occurrences sub b"
proof (induction a)
  case Nil
  from assms show ?case by (cases sub) auto
next
  case (Cons c a)
  have "prefix sub ((c # a) @ 10 # b) = prefix sub (c # a)"
    using assms(1) by (rule prefix_stops_at_newline)
  with Cons show ?case by simp
qed

lemma heading_newline [simp]:
  "count_occurrences heading (a @ 10 # b) = count_occurrences heading a + count_occurrences heading b"
  by (rule count_occurrences_newline) (simp_all add: heading_def lit_def)

lemma prefix_heading:
  "prefix heading s = prefix [35, 35, 32, 67, 111, 110, 116, 101, 110, 116] s"
  by (simp add: heading_def lit_def)

lemma heading_nonempty [simp]: "heading \<noteq> []"
  by (simp add: heading_def lit_def)

lemma count_md_content:
  "count_occurrences heading (md_content title url depth timestamp stripped)
     = 1 + count_occurrences heading title + count_occurrences heading url
       + count_occurrences heading depth + count_occurrences heading timestamp
       + count_occurrences heading stripped"
  by (simp add: md_content_def lit_def prefix_heading)

lemma count_append_md_content:
  "count_occurrences heading (written @ md_content title url depth timestamp stripped)
     = count_occurrences heading written
       + count_occurrences heading (md_content title url depth timestamp stripped)"
  by (simp add: md_content_def lit_def prefix_heading)


lemma accepted_has_metadata:
  "classify r = Accepted t \<Longrightarrow> result_metadata r \<noteq> None"
  by (auto simp: classify_def split: option.splits if_splits pyval.splits)

lemma count_page_section:
  assumes "count_occurrences heading (isoformat e (clock e n)) = 0"
  shows "count_occurrences heading (written @ page_section e n r)
           = count_occurrences heading written
             + (if is_accepted r then 1 else 0) + field_occurrences r"
proof (cases "classify r")
  case (Accepted t)
  with accepted_has_metadata obtain metadata where "result_metadata r = Some metadata"
    by blast
  with Accepted assms show ?thesis
    by (simp add: page_section_def is_accepted_def field_occurrences_def
        count_append_md_content count_md_content)
qed (simp_all add: page_section_def is_accepted_def field_occurrences_def)

lemma process_results_headings:
  assumes "process_results e (st, written, n) rs = (None, st', written', n')"
    and "\<forall>t. count_occurrences heading (isoformat e t) = 0"
  shows "count_occurrences heading written'
           = count_occurrences heading written + length (filter is_accepted rs)
             + sum_list (map field_occurrences rs)"
  using assms(1)
proof (induction rs arbitrary: st written n)
  case Nil
  then show ?case by simp
next
  case (Cons r rs)
  obtain raised st1 written1 n1
    where step: "page_step e (st, written, n) r = (raised, st1, written1, n1)"
    by (metis prod_cases4)
  with Cons.prems have none: "raised = None"
    and rest: "process_results e (st1, written1, n1) rs = (None, st', written', n')"
    by (auto split: option.splits)
  from step none have "page_step e (st, written, n) r = (None, st1, written1, n1)"
    by simp
  then have "written1 = written @ page_section e n r"
    by (rule page_step_effect(3))
  moreover from assms(2) have "count_occurrences heading (isoformat e (clock e n)) = 0"
    by simp
  ultimately have "count_occurrences heading written1
      = count_occurrences heading written
        + (if is_accepted r then 1 else 0) + field_occurrences r"
    by (simp add: count_page_section)
  with Cons.IH [OF rest] show ?case by simp
qed

lemma results_to_markdown_success:
  assumes "error (fst (results_to_markdown e w results output_path)) = None"
  obtains st1 written n where
    "process_results e (initial_stats e w, [], Suc (ticks w)) results = (None, st1, written, n)"
    "successful_pages (stats (fst (results_to_markdown e w results output_path)))
       = successful_pages st1"
    "total_pages (stats (fst (results_to_markdown e w results output_path))) = total_pages st1"
    "files (snd (results_to_markdown e w results output_path)) output_path = Some written"
    "file_path (fst (results_to_markdown e w results output_path)) = Some output_path"
proof -
  obtain raised st1 written n where
    p: "process_results e (initial_stats e w, [], Suc (ticks w)) results
          = (raised, st1, written, n)"
    by (metis prod_cases4)
  with assms have "raised = None"
    by (auto simp: results_to_markdown_def now_def initial_stats_def writing_error_def Let_def
        split: option.splits)
  with p assms that [of st1 written n] show thesis
    by (auto simp: results_to_markdown_def now_def initial_stats_def writing_error_def Let_def
        total_pages_def split: option.splits)
qed

lemmas run_eval = results_to_markdown_def now_def world0_def example_env_def example_clock_def
  example_isoformat_def never_raises1_def never_raises2_def page_heading_def page_plain_def
  page_nginx_404_def py_or_def dict_get_def error_indicators_def md_content_def
  encode_raises_def is_surrogate_def str_int_def writing_error_def print_raises_def

lemma classify_page_heading: "classify page_heading = Accepted (lit ''## Content'')"
  by (simp add: classify_def page_heading_def py_or_def dict_get_def strip_eval)

lemma classify_page_plain: "classify page_plain = Accepted (lit ''hello'')"
  by (simp add: classify_def page_plain_def py_or_def dict_get_def strip_eval)

lemma classify_page_nginx: "classify page_nginx_404 = SkippedErrorPage NotFound"
  by (simp add: classify_def page_nginx_404_def py_or_def dict_get_def lit_def)

lemma example_isoformat_no_heading:
  "\<forall>t. count_occurrences heading (isoformat example_env t) = 0"
  by (simp add: example_env_def example_isoformat_def heading_def lit_def)

text \<open>
  Claim C3. When the aggregator has processed every page result (it returns no error), the
  four counters of the returned \<open>stats\<close> add up to the number of page results: each
  iteration of the loop adds one to exactly one counter.
\<close>

theorem results_to_markdown_counts_every_page:
  assumes "error (fst (results_to_markdown e w results output_path)) = None"
  shows "successful_pages (stats (fst (results_to_markdown e w results output_path)))
         + failed_pages (stats (fst (results_to_markdown e w results output_path)))
         + not_found_pages (stats (fst (results_to_markdown e w results output_path)))
         + forbidden_pages (stats (fst (results_to_markdown e w results output_path)))
         = length results"
proof -
  from assms obtain st1 written n where
    p: "process_results e (initial_stats e w, [], Suc (ticks w)) results = (None, st1, written, n)"
    and t: "total_pages (stats (fst (results_to_markdown e w results output_path)))
              = total_pages st1"
    by (rule results_to_markdown_success)
  from process_results_effect [OF p] have "total_pages st1 = length results"
    by (simp add: total_pages_def initial_stats_def)
  with t show ?thesis by (simp add: total_pages_def)
qed

theorem results_to_markdown_counts_every_page_witness:
  "error (fst (results_to_markdown example_env world0 example_pages (lit ''out.md''))) = None
   \<and> successful_pages (stats (fst (results_to_markdown example_env world0 example_pages (lit ''out.md''))))
     + failed_pages (stats (fst (results_to_markdown example_env world0 example_pages (lit ''out.md''))))
     + not_found_pages (stats (fst (results_to_markdown example_env world0 example_pages (lit ''out.md''))))
     + forbidden_pages (stats (fst (results_to_markdown example_env world0 example_pages (lit ''out.md''))))
     = 3"
proof -
  have a: "error (fst (results_to_markdown example_env world0 example_pages (lit ''out.md''))) = None"
    by (simp add: example_pages_def run_eval strip_eval)
  have b: "length example_pages = 3"
    by (simp add: example_pages_def)
  from results_to_markdown_counts_every_page [OF a] a b show ?thesis
    by simp
qed

text \<open>
  On the path that returns no error the duration is the difference of two clock readings,
  the later one taken after the earlier one: it is not negative when the clock does not go
  backwards.
\<close>

lemma page_step_ticks:
  assumes "page_step e (st, written, n) r = (raised, st', written', n')"
  shows "n \<le> n'"
  using assms
  by (auto simp: Let_def split: option.splits if_splits pyval.splits)

lemma process_results_ticks:
  assumes "process_results e (st, written, n) rs = (raised, st', written', n')"
  shows "n \<le> n'"
  using assms
proof (induction rs arbitrary: st written n)
  case Nil
  then show ?case by simp
next
  case (Cons r rs)
  obtain x st1 written1 n1
    where step: "page_step e (st, written, n) r = (x, st1, written1, n1)"
    by (metis prod_cases4)
  then have le: "n \<le> n1"
    by (rule page_step_ticks)
  show ?case
  proof (cases x)
    case None
    with step Cons.prems
    have "process_results e (st1, written1, n1) rs = (raised, st', written', n')"
      by simp
    then have "n1 \<le> n'"
      by (rule Cons.IH)
    with le show ?thesis by simp
  next
    case (Some ex)
    with step Cons.prems have "n' = n1"
      by simp
    with le show ?thesis by simp
  qed
qed

lemma results_to_markdown_duration:
  assumes "error (fst (results_to_markdown e w results output_path)) = None"
    and "\<And>i j. i \<le> j \<Longrightarrow> clock e i \<le> clock e j"
  shows "\<exists>d. duration_seconds (stats (fst (results_to_markdown e w results output_path)))
               = Some d \<and> 0 \<le> d"
proof -
  obtain raised st1 written n where
    p: "process_results e (initial_stats e w, [], Suc (ticks w)) results
          = (raised, st1, written, n)"
    by (metis prod_cases4)
  then have "Suc (ticks w) \<le> n"
    by (rule process_results_ticks)
  then have "clock e (ticks w) \<le> clock e n"
    by (intro assms(2)) simp
  with p assms(1) show ?thesis
    by (auto simp: results_to_markdown_def now_def initial_stats_def writing_error_def Let_def
        split: option.splits)
qed

text \<open>
  Claim C4. The claim says that every result of the aggregator, a failure included,
  carries a \<open>stats\<close> with a \<open>duration_seconds\<close> that is at least zero. The source sets
  \<open>duration_seconds\<close> only after the loop, on the path that returns no error; the
  \<open>except\<close> branch returns \<open>stats\<close> as it is then, without that key. Here the output
  path is a directory, opening it fails, and the returned \<open>stats\<close> have no
  \<open>duration_seconds\<close>.
\<close>

theorem results_to_markdown_failure_no_duration:
  "error (fst (results_to_markdown failing_env world0 [page_plain] (lit ''/'')))
     = Some (lit ''Writing error: [Errno 21] Is a directory: '' @ quoted (lit ''/''))
   \<and> duration_seconds (stats (fst (results_to_markdown failing_env world0 [page_plain] (lit ''/''))))
       = None"
  by (simp add: results_to_markdown_def now_def failing_env_def open_fails_def writing_error_def
      lit_def)

text \<open>
  Claim C6. The claim says that the artifact holds exactly as many \<open>## Content\<close>
  headings as there are accepted pages. The text of a page is written as it is, so a page
  whose own text is \<open>## Content\<close> brings a second occurrence: one accepted page, two
  occurrences.
\<close>

theorem content_heading_twice:
  "error (fst (results_to_markdown example_env world0 [page_heading] (lit ''out.md''))) = None
   \<and> length (filter is_accepted [page_heading]) = 1
   \<and> map_option (count_occurrences heading)
        (files (snd (results_to_markdown example_env world0 [page_heading] (lit ''out.md'')))
           (lit ''out.md''))
       = Some 2"
proof -
  have a: "error (fst (results_to_markdown example_env world0 [page_heading] (lit ''out.md''))) = None"
    by (simp add: run_eval strip_eval)
  have b: "length (filter is_accepted [page_heading]) = 1"
    by (simp add: is_accepted_def classify_page_heading)
  have c: "map_option (count_occurrences heading)
        (files (snd (results_to_markdown example_env world0 [page_heading] (lit ''out.md'')))
           (lit ''out.md''))
       = Some 2"
    by (simp add: run_eval strip_eval heading_def)
  from a b c show ?thesis by simp
qed

text \<open>
  Claim C6, as amended. When the aggregator returns no error and no timestamp holds the
  heading text, \<open>successful_pages\<close> is the number \<open>k\<close> of accepted pages, and the artifact
  holds \<open>k\<close> occurrences of \<open>## Content\<close> from the template plus the occurrences inside
  the title, URL, depth and stripped text of the accepted pages; so exactly \<open>k\<close> when
  those fields do not hold that text.
\<close>

theorem results_to_markdown_content_headings:
  assumes "error (fst (results_to_markdown e w results output_path)) = None"
    and "\<forall>t. count_occurrences heading (isoformat e t) = 0"
  shows "successful_pages (stats (fst (results_to_markdown e w results output_path)))
           = length (filter is_accepted results)
         \<and> (\<exists>artifact.
               files (snd (results_to_markdown e w results output_path)) output_path
                 = Some artifact
               \<and> count_occurrences heading artifact
                   = length (filter is_accepted results)
                     + sum_list (map field_occurrences results))"
proof -
  from assms(1) obtain st1 written n where
    p: "process_results e (initial_stats e w, [], Suc (ticks w)) results = (None, st1, written, n)"
    and s: "successful_pages (stats (fst (results_to_markdown e w results output_path)))
              = successful_pages st1"
    and f: "files (snd (results_to_markdown e w results output_path)) output_path
              = Some written"
    by (rule results_to_markdown_success)
  from process_results_effect [OF p]
  have "successful_pages st1 = length (filter is_accepted results)"
    by (simp add: initial_stats_def)
  moreover from process_results_headings [OF p assms(2)]
  have "count_occurrences heading written
          = length (filter is_accepted results) + sum_list (map field_occurrences results)"
    by simp
  ultimately show ?thesis using s f by simp
qed

theorem results_to_markdown_content_headings_witness:
  "error (fst (results_to_markdown example_env world0 example_pages (lit ''out.md''))) = None
   \<and> (\<forall>t. count_occurrences heading (isoformat example_env t) = 0)
   \<and> successful_pages (stats (fst (results_to_markdown example_env world0 example_pages (lit ''out.md'')))) = 2
   \<and> (\<exists>artifact.
         files (snd (results_to_markdown example_env world0 example_pages (lit ''out.md'')))
           (lit ''out.md'') = Some artifact
         \<and> count_occurrences heading artifact = 3)"
proof -
  have a: "error (fst (results_to_markdown example_env world0 example_pages (lit ''out.md''))) = None"
    by (simp add: example_pages_def run_eval strip_eval)
  have k: "length (filter is_accepted example_pages) = 2"
    by (simp add: example_pages_def is_accepted_def classify_page_heading classify_page_plain
        classify_page_nginx)
  have f1: "field_occurrences page_nginx_404 = 0"
    unfolding field_occurrences_def classify_page_nginx by simp
  have f2: "field_occurrences page_heading = 1"
    unfolding field_occurrences_def classify_page_heading
    by (simp add: page_heading_def dict_get_def heading_def lit_def str_int_def)
  have f3: "field_occurrences page_plain = 0"
    unfolding field_occurrences_def classify_page_plain
    by (simp add: page_plain_def dict_get_def heading_def lit_def str_int_def)
  have f: "sum_list (map field_occurrences example_pages) = 1"
    by (simp add: example_pages_def f1 f2 f3)
  from results_to_markdown_content_headings [OF a example_isoformat_no_heading]
    a example_isoformat_no_heading k f
  show ?thesis by simp
qed

text \<open>
  A page whose text (\<open>markdown\<close>, or \<open>text\<close> when \<open>markdown\<close> is missing or empty) holds
  both \<open>404 Not Found\<close> and \<open>nginx\<close>, and whose URL can be printed, is counted in
  \<open>not_found_pages\<close> and nothing is written for it, whatever its metadata and title are:
  the test on the body comes before the metadata is read.
\<close>

lemma encode_raises_append [simp]:
  "encode_raises (a @ b) = (encode_raises a \<or> encode_raises b)"
  by (simp add: encode_raises_def)

lemma page_step_nginx_404_printable:
  assumes "py_or (result_markdown result) (result_text result) = Some text_for_output"
    and "str_contains (lit ''404 Not Found'') text_for_output"
    and "str_contains (lit ''nginx'') text_for_output"
    and "\<not> encode_raises (result_url result)"
  shows "page_step e (st, written, n) result
           = (None, st\<lparr>not_found_pages := not_found_pages st + 1\<rparr>, written, n)
         \<and> classify result = SkippedErrorPage NotFound"
proof -
  have "text_for_output \<noteq> []"
    using assms(3) by (cases text_for_output) (simp_all add: lit_def)
  moreover have "\<not> encode_raises (lit ''404'')"
    and "\<not> encode_raises (lit '' page detected and skipped: '')"
    by (simp_all add: lit_def encode_raises_def is_surrogate_def)
  ultimately show ?thesis using assms
    by (simp add: classify_def print_raises_def Let_def)
qed


section \<open>Properties of the orchestrator\<close>

lemma str_replace_dot:
  "str_replace (lit ''.'') (lit ''_'') s = map (\<lambda>c. if c = 46 then 95 else c) s"
  by (induction s) (simp_all add: lit_def)

text \<open>
  The timestamp of a time of the years 1000 to 9999 has fifteen characters, the ninth of
  them the underscore: \<open>YYYYMMDD_HHMMSS\<close>.
\<close>

lemma str_nat_length_1: "n < 10 \<Longrightarrow> length (str_nat n) = 1"
  by (subst str_nat.simps) (simp del: str_nat.simps)

lemma str_nat_length_2:
  assumes "10 \<le> n" and "n < 100"
  shows "length (str_nat n) = 2"
proof -
  from assms have "n div 10 < 10" by simp
  then have "length (str_nat (n div 10)) = 1"
    by (rule str_nat_length_1)
  with assms show ?thesis
    by (subst str_nat.simps) (simp del: str_nat.simps)
qed

lemma str_nat_length_3:
  assumes "100 \<le> n" and "n < 1000"
  shows "length (str_nat n) = 3"
proof -
  from assms have "10 \<le> n div 10" and "n div 10 < 100" by simp_all
  then have "length (str_nat (n div 10)) = 2"
    by (rule str_nat_length_2)
  with assms show ?thesis
    by (subst str_nat.simps) (simp del: str_nat.simps)
qed

lemma str_nat_length_4:
  assumes "1000 \<le> n" and "n < 10000"
  shows "length (str_nat n) = 4"
proof -
  from assms have "100 \<le> n div 10" and "n div 10 < 1000" by simp_all
  then have "length (str_nat (n div 10)) = 3"
    by (rule str_nat_length_3)
  with assms show ?thesis
    by (subst str_nat.simps) (simp del: str_nat.simps)
qed

lemma zero_padded_2_length:
  assumes "n < 100"
  shows "length (zero_padded 2 n) = 2"
proof (cases "n < 10")
  case True
  then show ?thesis
    by (simp add: zero_padded_def str_nat_length_1 del: str_nat.simps)
next
  case False
  with assms show ?thesis
    by (simp add: zero_padded_def str_nat_length_2 del: str_nat.simps)
qed

lemma strftime_shape:
  assumes "1000 \<le> dt_year d" "dt_year d < 10000" "dt_month d < 100" "dt_day d < 100"
    "dt_hour d < 100" "dt_minute d < 100" "dt_second d < 100"
  shows "length (strftime d) = 15 \<and> strftime d ! 8 = 95"
  using assms
  by (simp add: strftime_def zero_padded_2_length nth_append
      zero_padded_def [of 4] str_nat_length_4 del: str_nat.simps)

text \<open>
  Claim C7. The claim says that every separator of the host that is not a letter or a
  digit becomes an underscore in the generated name, and that a supplied \<open>output_file\<close>
  is used as it is. The source replaces the dots and nothing else: the hyphen of
  \<open>my-site.example.com\<close> stays in the name. And an \<open>output_file\<close> that is supplied as
  the empty string is not used; a name is generated for it as well.
\<close>

theorem resolve_output_file_keeps_hyphen:
  "fst (resolve_output_file example_env world0 (VStr (lit ''http://my-site.example.com/guide'')) VNone)
     = Inr (VStr (lit ''/app/crawl_results/crawl_my-site_example_com_20250101_000000.md''))
   \<and> fst (resolve_output_file example_env world0 (VStr (lit ''http://my-site.example.com/guide''))
            (VStr []))
     = Inr (VStr (lit ''/app/crawl_results/crawl_my-site_example_com_20250101_000000.md''))"
  by (simp add: resolve_output_file_def generate_filename_from_url_def example_env_def
      example_urlparse_netloc_def example_calendar_def strftime_def zero_padded_def
      now_def path_join_def world0_def lit_def)

text \<open>
  Claim C7, as amended. An \<open>output_file\<close> that is a string and not empty is used as it
  is. When no \<open>output_file\<close> is supplied and the network location of the start URL is a
  bare host, the output file is \<open>crawl_{host}_{YYYYMMDD_HHMMSS}.md\<close> in the results
  directory, where every dot (46) of the host is replaced by an underscore (95) and every
  other character is kept, and the timestamp is the next clock reading in the format
  \<open>%Y%m%d_%H%M%S\<close>.
\<close>

theorem resolve_output_file_dots_only:
  "(p \<noteq> [] \<longrightarrow>
      resolve_output_file e w start_url (VStr p) = (Inr (VStr p), w))
   \<and> (results_directory e = Inr dir \<and> urlparse_netloc e start_url = Inr host
        \<and> is_bare_host host \<longrightarrow>
      resolve_output_file e w start_url VNone
        = (Inr (VStr (path_join dir
             (lit ''crawl_'' @ map (\<lambda>c. if c = 46 then 95 else c) host @ lit ''_''
                @ strftime (calendar e (clock e (ticks w))) @ lit ''.md''))),
           w\<lparr>ticks := Suc (ticks w)\<rparr>))"
  by (simp add: resolve_output_file_def generate_filename_from_url_def now_def str_replace_dot)

theorem resolve_output_file_dots_only_witness:
  "lit ''out.md'' \<noteq> []
   \<and> resolve_output_file example_env world0 (VStr (lit ''http://my-site.example.com/guide''))
         (VStr (lit ''out.md''))
       = (Inr (VStr (lit ''out.md'')), world0)
   \<and> results_directory example_env = Inr (lit ''/app/crawl_results'')
   \<and> urlparse_netloc example_env (VStr (lit ''http://my-site.example.com/guide''))
       = Inr (lit ''my-site.example.com'')
   \<and> is_bare_host (lit ''my-site.example.com'')
   \<and> resolve_output_file example_env world0 (VStr (lit ''http://my-site.example.com/guide'')) VNone
       = (Inr (VStr (lit ''/app/crawl_results/crawl_my-site_example_com_20250101_000000.md'')),
          world0\<lparr>ticks := 1\<rparr>)"
proof -
  have a: "lit ''out.md'' \<noteq> []"
    by (simp add: lit_def)
  have c: "results_directory example_env = Inr (lit ''/app/crawl_results'')"
    by (simp add: example_env_def)
  have d: "urlparse_netloc example_env (VStr (lit ''http://my-site.example.com/guide''))
       = Inr (lit ''my-site.example.com'')"
    by (simp add: example_env_def example_urlparse_netloc_def)
  have b: "is_bare_host (lit ''my-site.example.com'')"
    by (simp add: is_bare_host_def lit_def)
  have f: "path_join (lit ''/app/crawl_results'')
             (lit ''crawl_'' @ map (\<lambda>c. if c = 46 then 95 else c) (lit ''my-site.example.com'')
                @ lit ''_'' @ strftime (calendar example_env (clock example_env (ticks world0)))
                @ lit ''.md'')
           = lit ''/app/crawl_results/crawl_my-site_example_com_20250101_000000.md''"
    by (simp add: path_join_def example_env_def example_calendar_def strftime_def
        zero_padded_def lit_def)
  have g: "ticks world0 = 0"
    by (simp add: world0_def)
  from resolve_output_file_dots_only
      [where p = "lit ''out.md''" and e = example_env and w = world0
         and start_url = "VStr (lit ''http://my-site.example.com/guide'')"
         and dir = "lit ''/app/crawl_results''" and host = "lit ''my-site.example.com''"]
    a b c d g
  have "resolve_output_file example_env world0
          (VStr (lit ''http://my-site.example.com/guide'')) (VStr (lit ''out.md''))
        = (Inr (VStr (lit ''out.md'')), world0)"
    and "resolve_output_file example_env world0
          (VStr (lit ''http://my-site.example.com/guide'')) VNone
        = (Inr (VStr (path_join (lit ''/app/crawl_results'')
             (lit ''crawl_'' @ map (\<lambda>c. if c = 46 then 95 else c) (lit ''my-site.example.com'')
                @ lit ''_'' @ strftime (calendar example_env (clock example_env (ticks world0)))
                @ lit ''.md''))),
           world0\<lparr>ticks := 1\<rparr>)"
    by simp_all
  with a b c d show ?thesis
    by (simp only: f simp_thms)
qed

section \<open>Properties of the tool server\<close>

text \<open>
  Claim C9. A call of the tool \<open>crawl\<close> whose arguments have no key \<open>url\<close> ends in the
  \<open>ValueError\<close> "Missing required argument 'url'": the handler returns no content item
  and changes nothing, and the exception is handed to the serving library, which reports
  a rejected call.
\<close>

theorem crawl_tool_missing_url:
  assumes "arguments (lit ''url'') = None"
  shows "crawl_tool e w (lit ''crawl'') arguments
           = (Inl (ValueError (lit ''Missing required argument '' @ quoted (lit ''url''))), w)"
  using assms by (simp add: crawl_tool_def)

theorem crawl_tool_missing_url_witness:
  "[lit ''max_depth'' \<mapsto> VInt 1] (lit ''url'') = None
   \<and> crawl_tool example_env world0 (lit ''crawl'') [lit ''max_depth'' \<mapsto> VInt 1]
       = (Inl (ValueError (lit ''Missing required argument '' @ quoted (lit ''url''))), world0)"
proof -
  have a: "[lit ''max_depth'' \<mapsto> VInt 1] (lit ''url'') = None"
    by (simp add: lit_def)
  from crawl_tool_missing_url
      [where arguments = "[lit ''max_depth'' \<mapsto> VInt 1]" and e = example_env and w = world0] a
  show ?thesis by simp
qed

end
